theory Spec2Isabelle
  imports Main
begin

section \<open>Exceptions, events and the result type\<close>

text \<open>
  The exception classes that \<^verbatim>\<open>browse.py\<close> imports from Selenium or declares itself, and
  Python's \<^verbatim>\<open>AttributeError\<close>. A constructor stands for an instance of exactly that class.
  \<open>InlineConnectException\<close> carries the exception that was being handled when it was
  raised (Python records it as \<^verbatim>\<open>__context__\<close>); message strings are left out.
\<close>

datatype exn =
    NoSuchElementException
  | StaleElementReferenceException
  | InvalidSelectorException
  | ElementNotInteractableException
  | ElementClickInterceptedException
  | InvalidElementStateException
  | WebDriverException
  | AttributeError
  | ValueError
  | InsightsNotFoundException
  | LowMutualConnectionsError
  | ConnectButtonError
  | PopupButtonError
  | InsightParseException
  | InlineConnectException exn

text \<open>A Python \<^verbatim>\<open>str\<close> is the sequence of its Unicode code points.\<close>

type_synonym str = "nat list"

text \<open>
  The calls whose order the specification talks about. Every computation returns its
  result together with the events it performed, in order.
\<close>

datatype event =
    Driver_get str
  | Sleep nat
  | Find_cards
  | Find_insights
  | Call_parser str
  | Call_actuator
  | Find_connect
  | Is_enabled_connect
  | Click_connect
  | Find_popup
  | Click_popup
  | Find_link
  | Get_attribute_href

type_synonym 'a io = "(exn + 'a) \<times> event list"

definition ret :: "'a \<Rightarrow> 'a io" where
  "ret v = (Inr v, [])"

definition raise :: "exn \<Rightarrow> 'a io" where
  "raise e = (Inl e, [])"

definition perform :: "event \<Rightarrow> exn + 'a \<Rightarrow> 'a io" where
  "perform ev outcome = (outcome, [ev])"

definition bind :: "'a io \<Rightarrow> ('a \<Rightarrow> 'b io) \<Rightarrow> 'b io" where
  "bind m f =
     (case m of
        (Inl e, evs) \<Rightarrow> (Inl e, evs)
      | (Inr v, evs) \<Rightarrow> (case f v of (r, evs') \<Rightarrow> (r, evs @ evs')))"

text \<open>
  \<^verbatim>\<open>try: m except (handled) as e: h e\<close>: an exception of a listed class runs the handler,
  any other exception propagates.
\<close>

definition try_except :: "'a io \<Rightarrow> exn list \<Rightarrow> (exn \<Rightarrow> 'a io) \<Rightarrow> 'a io" where
  "try_except m handled h =
     (case m of
        (Inl e, evs) \<Rightarrow>
          (if e \<in> set handled then (case h e of (r, evs') \<Rightarrow> (r, evs @ evs'))
           else (Inl e, evs))
      | (Inr v, evs) \<Rightarrow> (Inr v, evs))"

text \<open>A step that performs no event: the value, or the exception raised.\<close>

definition raise_or_ret :: "exn + 'a \<Rightarrow> 'a io" where
  "raise_or_ret r = (r, [])"

section \<open>The browsing session\<close>

text \<open>
  A located element: its text, whether it is enabled, the value of its \<^verbatim>\<open>href\<close>
  attribute, and what \<^verbatim>\<open>click()\<close> does (\<open>None\<close>: returns; \<open>Some e\<close>: raises \<open>e\<close>).
  Reading text, enabledness and attributes of a located element is taken to succeed.
\<close>

record element =
  el_text :: str
  el_is_enabled :: bool
  el_href :: "str option"
  el_click :: "exn option"

text \<open>
  A result card: whether the handle has gone stale, the elements its subtree holds for the
  three selectors the code uses, and the confirmation control the whole page shows once the
  card's connect control has been clicked.
\<close>

record card =
  stale :: bool
  insights_div :: "element option"
  connect_button :: "element option"
  profile_anchor :: "element option"
  popup_after_click :: "element option"

datatype selector = Insights_selector | Connect_selector | Link_selector

text \<open>
  Selenium's \<^verbatim>\<open>WebElement.find_element\<close> on a card: a stale handle raises
  \<^verbatim>\<open>StaleElementReferenceException\<close>, no match raises \<^verbatim>\<open>NoSuchElementException\<close>.
\<close>

definition WebElement_find_element :: "card \<Rightarrow> selector \<Rightarrow> exn + element" where
  "WebElement_find_element c sel =
     (if stale c then Inl StaleElementReferenceException
      else case (case sel of Insights_selector \<Rightarrow> insights_div c
                           | Connect_selector \<Rightarrow> connect_button c
                           | Link_selector \<Rightarrow> profile_anchor c) of
             None \<Rightarrow> Inl NoSuchElementException
           | Some el \<Rightarrow> Inr el)"

text \<open>Selenium's \<^verbatim>\<open>WebDriver.find_element\<close> on the whole page, for the popup selector.\<close>

definition WebDriver_find_element :: "element option \<Rightarrow> exn + element" where
  "WebDriver_find_element shown =
     (case shown of None \<Rightarrow> Inl NoSuchElementException | Some el \<Rightarrow> Inr el)"

text \<open>
  The driver behind a \<^verbatim>\<open>BrowserClient\<close>: what \<^verbatim>\<open>driver.get\<close> does for a URL and what
  \<^verbatim>\<open>driver.find_elements\<close> gives for the card selector on the loaded page.
\<close>

record browser =
  driver_get :: "str \<Rightarrow> exn option"
  driver_find_elements :: "exn + card list"

text \<open>\<^verbatim>\<open>BrowserClient.find_element\<close>: any exception of the driver becomes \<^verbatim>\<open>None\<close>.\<close>

definition BrowserClient_find_element :: "exn + element \<Rightarrow> element option" where
  "BrowserClient_find_element driver_outcome =
     (case driver_outcome of Inr el \<Rightarrow> Some el | Inl e \<Rightarrow> None)"

text \<open>\<^verbatim>\<open>BrowserClient.find_elements\<close>: any exception of the driver becomes \<^verbatim>\<open>[]\<close>.\<close>

definition BrowserClient_find_elements :: "exn + card list \<Rightarrow> card list" where
  "BrowserClient_find_elements driver_outcome =
     (case driver_outcome of Inr els \<Rightarrow> els | Inl e \<Rightarrow> [])"

text \<open>\<^verbatim>\<open>BrowserClient.get\<close>: the driver's exception, if any, is not caught.\<close>

definition BrowserClient_get :: "browser \<Rightarrow> str \<Rightarrow> unit io" where
  "BrowserClient_get b url =
     perform (Driver_get url) (case driver_get b url of None \<Rightarrow> Inr () | Some e \<Rightarrow> Inl e)"

text \<open>Attribute access \<^verbatim>\<open>x.text\<close> on an \<^verbatim>\<open>Optional[WebElement]\<close>.\<close>

definition getattr_text :: "element option \<Rightarrow> exn + str" where
  "getattr_text x = (case x of None \<Rightarrow> Inl AttributeError | Some el \<Rightarrow> Inr (el_text el))"

section \<open>The insight parser\<close>

definition MIN_MUTUAL_CONNECTIONS_TO_SEND_CONNECT :: int where
  "MIN_MUTUAL_CONNECTIONS_TO_SEND_CONNECT = 10"

text \<open>
  The decimal digits of Unicode 14.0 (general category Nd) are the characters that
  \<^verbatim>\<open>\d\<close> matches in a \<^verbatim>\<open>str\<close> pattern and that \<^verbatim>\<open>int()\<close> converts. They come in
  blocks of ten, zero to nine; these are the code points of the zeros.
\<close>

definition unicode_decimal_zeros :: "nat list" where
  "unicode_decimal_zeros =
     [
      48, 1632, 1776, 1984, 2406, 2534, 2662, 2790, 2918,
      3046, 3174, 3302, 3430, 3558, 3664, 3792, 3872, 4160,
      4240, 6112, 6160, 6470, 6608, 6784, 6800, 6992, 7088,
      7232, 7248, 42528, 43216, 43264, 43472, 43504, 43600, 44016,
      65296, 66720, 68912, 69734, 69872, 69942, 70096, 70384, 70736,
      70864, 71248, 71360, 71472, 71904, 72016, 72784, 73040, 73120,
      92768, 92864, 93008, 120782, 120792, 120802, 120812, 120822, 123200,
      123632, 125264, 130032
     ]"

text \<open>The decimal value of a code point, when it is a decimal digit.\<close>

definition decimal_value :: "nat \<Rightarrow> nat option" where
  "decimal_value c =
     map_option (\<lambda>z. c - z) (find (\<lambda>z. z \<le> c \<and> c < z + 10) unicode_decimal_zeros)"

definition is_digit :: "nat \<Rightarrow> bool" where
  "is_digit c = (decimal_value c \<noteq> None)"

text \<open>
  \<^verbatim>\<open>re.findall(r'\d+', s)\<close>: scanning from the left, a digit starts a greedy match that
  takes every digit that follows; the scan resumes behind the match.
\<close>

function re_findall_digits :: "str \<Rightarrow> str list" where
  "re_findall_digits [] = []"
| "re_findall_digits (c # cs) =
     (if is_digit c
      then (c # takeWhile is_digit cs) # re_findall_digits (dropWhile is_digit cs)
      else re_findall_digits cs)"
  by pat_completeness auto
termination
  by (relation "measure length") (auto simp: length_dropWhile_le less_Suc_eq_le)

text \<open>
  CPython's default limit on the number of digits that \<^verbatim>\<open>int()\<close> converts from a
  string (\<^verbatim>\<open>sys.get_int_max_str_digits()\<close>).
\<close>

definition int_max_str_digits :: nat where
  "int_max_str_digits = 4300"

text \<open>
  \<^verbatim>\<open>int(s)\<close> for a \<^verbatim>\<open>str\<close>: \<^verbatim>\<open>ValueError\<close> for the empty string, for a character
  that is no decimal digit and for more digits than the limit; otherwise the digits are
  read from the left, and Python's integers are unbounded. The sign, whitespace and
  underscore forms that \<^verbatim>\<open>int()\<close> also accepts are left out: the parser passes it a match
  of \<^verbatim>\<open>\d+\<close> only.
\<close>

definition py_int :: "str \<Rightarrow> exn + int" where
  "py_int s =
     (case those (map decimal_value s) of
        None \<Rightarrow> Inl ValueError
      | Some ds \<Rightarrow>
          if ds = [] \<or> int_max_str_digits < length ds then Inl ValueError
          else Inr (foldl (\<lambda>n v. 10 * n + int v) 0 ds))"

definition get_mutual_connection_count_from_card_insights_text :: "str \<Rightarrow> exn + int" where
  "get_mutual_connection_count_from_card_insights_text insight_string =
     (let match = re_findall_digits insight_string
      in if length match \<noteq> 1 then Inl InsightParseException
         else py_int (match ! 0))"


section \<open>The inline connect actuator\<close>

definition lookup_errors :: "exn list" where
  "lookup_errors =
     [NoSuchElementException, StaleElementReferenceException, InvalidSelectorException]"

definition click_errors :: "exn list" where
  "click_errors =
     [ElementNotInteractableException, ElementClickInterceptedException,
      StaleElementReferenceException, InvalidElementStateException]"

definition click_outcome :: "element \<Rightarrow> exn + unit" where
  "click_outcome el = (case el_click el of None \<Rightarrow> Inr () | Some e \<Rightarrow> Inl e)"

text \<open>
  \<^verbatim>\<open>__send_connect_inline(card, browser)\<close>. The popup lookup goes through
  \<^verbatim>\<open>BrowserClient.find_element\<close>, which returns \<^verbatim>\<open>None\<close> instead of raising; the
  \<^verbatim>\<open>print(popup_button.text)\<close> that follows it inside the \<^verbatim>\<open>try\<close> is the first use of
  the value.
\<close>

definition dunder_send_connect_inline :: "card \<Rightarrow> browser \<Rightarrow> int io" where
  "dunder_send_connect_inline c b =
     bind (try_except
             (perform Find_connect (WebElement_find_element c Connect_selector))
             lookup_errors (\<lambda>e. raise ConnectButtonError))
       (\<lambda>connect_button.
     bind (perform Is_enabled_connect (Inr (el_is_enabled connect_button)))
       (\<lambda>enabled.
     if \<not> enabled then raise ConnectButtonError
     else
     bind (try_except
             (perform Click_connect (click_outcome connect_button))
             click_errors (\<lambda>e. raise ConnectButtonError))
       (\<lambda>_.
     bind (try_except
             (bind (perform Find_popup
                      (Inr (BrowserClient_find_element
                              (WebDriver_find_element (popup_after_click c)))))
                (\<lambda>popup_button.
              bind (raise_or_ret (getattr_text popup_button))
                (\<lambda>_. ret popup_button)))
             lookup_errors (\<lambda>e. raise PopupButtonError))
       (\<lambda>popup_button.
     try_except
       (bind (perform Click_popup
                (case popup_button of
                   None \<Rightarrow> Inl AttributeError
                 | Some el \<Rightarrow> click_outcome el))
          (\<lambda>_. ret 0))
       click_errors (\<lambda>e. raise PopupButtonError)))))"

section \<open>The card eligibility gate\<close>

definition inline_causes :: "exn list" where
  "inline_causes =
     [InsightsNotFoundException, InsightParseException, LowMutualConnectionsError,
      ConnectButtonError, PopupButtonError]"

text \<open>The suite of the outer \<^verbatim>\<open>try\<close> of \<^verbatim>\<open>send_connect_inline\<close>.\<close>

definition send_connect_inline_try :: "card \<Rightarrow> browser \<Rightarrow> int io" where
  "send_connect_inline_try c b =
     bind (try_except
             (perform Find_insights (WebElement_find_element c Insights_selector))
             lookup_errors (\<lambda>e. raise InsightsNotFoundException))
       (\<lambda>insights.
     bind (perform (Call_parser (el_text insights))
             (get_mutual_connection_count_from_card_insights_text (el_text insights)))
       (\<lambda>conn_count.
     if conn_count < MIN_MUTUAL_CONNECTIONS_TO_SEND_CONNECT
     then raise LowMutualConnectionsError
     else bind (perform Call_actuator (Inr ()))
            (\<lambda>_. dunder_send_connect_inline c b)))"

definition send_connect_inline :: "card \<Rightarrow> browser \<Rightarrow> int io" where
  "send_connect_inline c b =
     try_except (send_connect_inline_try c b) inline_causes
       (\<lambda>e. raise (InlineConnectException e))"

section \<open>The search result collector\<close>

text \<open>
  The second \<^verbatim>\<open>try\<close> of the loop body: the fallback link extraction.
  \<^verbatim>\<open>get_attribute\<close> gives an \<^verbatim>\<open>Optional[str]\<close>, which is false in a condition when it is
  \<^verbatim>\<open>None\<close> or the empty string.
\<close>

definition extract_link :: "card \<Rightarrow> str list \<Rightarrow> str list io" where
  "extract_link c profile_links =
     try_except
       (bind (perform Find_link (WebElement_find_element c Link_selector))
          (\<lambda>link_elem.
        bind (perform Get_attribute_href (Inr (el_href link_elem)))
          (\<lambda>href.
        case href of
          None \<Rightarrow> ret profile_links
        | Some h \<Rightarrow>
            if h \<noteq> [] \<and> h \<notin> set profile_links
            then ret (profile_links @ [h])
            else ret profile_links)))
       lookup_errors (\<lambda>e. ret profile_links)"

text \<open>
  One pass of the loop body. \<open>InlineConnectException\<close> is the only class the first
  \<^verbatim>\<open>try\<close> handles; success of the inline attempt is the \<^verbatim>\<open>continue\<close>.
\<close>

definition loop_body :: "browser \<Rightarrow> bool \<Rightarrow> card \<Rightarrow> str list \<Rightarrow> str list io" where
  "loop_body b try_inline c profile_links =
     (if try_inline then
        (case send_connect_inline c b of
           (Inr v, evs) \<Rightarrow> (Inr profile_links, evs)
         | (Inl e, evs) \<Rightarrow>
             (case e of
                InlineConnectException cause \<Rightarrow>
                  (case extract_link c profile_links of (r, evs') \<Rightarrow> (r, evs @ evs'))
              | _ \<Rightarrow> (Inl e, evs)))
      else extract_link c profile_links)"

fun for_cards :: "browser \<Rightarrow> bool \<Rightarrow> card list \<Rightarrow> str list \<Rightarrow> str list io" where
  "for_cards b try_inline [] profile_links = ret profile_links"
| "for_cards b try_inline (c # cs) profile_links =
     bind (loop_body b try_inline c profile_links) (for_cards b try_inline cs)"

definition get_search_results :: "browser \<Rightarrow> str \<Rightarrow> bool \<Rightarrow> str list io" where
  "get_search_results b search_url try_inline =
     bind (BrowserClient_get b search_url)
       (\<lambda>_.
     bind (perform (Sleep 5) (Inr ()))
       (\<lambda>_.
     bind (perform Find_cards (Inr (BrowserClient_find_elements (driver_find_elements b))))
       (\<lambda>cards.
     if length cards = 0 then ret []
     else for_cards b try_inline cards [])))"

section \<open>Example pages\<close>

text \<open>The \<^verbatim>\<open>str\<close> of an ASCII literal.\<close>

definition py :: "string \<Rightarrow> str" where
  "py s = map of_char s"

definition a_button :: element where
  "a_button = \<lparr>el_text = py ''Connect'', el_is_enabled = True, el_href = None, el_click = None\<rparr>"

definition an_insight :: "string \<Rightarrow> element" where
  "an_insight t = \<lparr>el_text = py t, el_is_enabled = True, el_href = None, el_click = None\<rparr>"

definition an_anchor :: "string option \<Rightarrow> element" where
  "an_anchor h = \<lparr>el_text = [], el_is_enabled = True, el_href = map_option py h, el_click = None\<rparr>"

definition a_card :: "string \<Rightarrow> string \<Rightarrow> card" where
  "a_card insight url =
     \<lparr>stale = False, insights_div = Some (an_insight insight),
      connect_button = Some a_button, profile_anchor = Some (an_anchor (Some url)),
      popup_after_click = Some a_button\<rparr>"

definition a_browser :: "card list \<Rightarrow> browser" where
  "a_browser cs = \<lparr>driver_get = (\<lambda>url. None), driver_find_elements = Inr cs\<rparr>"

definition popup_missing_card :: card where
  "popup_missing_card = (a_card ''15 mutual connections'' ''/in/d'')\<lparr>popup_after_click := None\<rparr>"

definition disabled_card :: card where
  "disabled_card =
     (a_card ''15 mutual connections'' ''/in/x'')
       \<lparr>connect_button := Some (a_button\<lparr>el_is_enabled := False\<rparr>)\<rparr>"

definition bare_card :: card where
  "bare_card =
     \<lparr>stale = False, insights_div = None, connect_button = None, profile_anchor = None,
      popup_after_click = None\<rparr>"

definition aborting_page :: browser where
  "aborting_page =
     a_browser [a_card ''5 mutual connections'' ''/in/b'', popup_missing_card,
                a_card ''3 mutual connections'' ''/in/e'']"

definition duplicate_page :: browser where
  "duplicate_page =
     a_browser [a_card ''5 mutual connections'' ''/in/b'',
                a_card ''3 mutual connections'' ''/in/b'',
                a_card ''no insight'' ''/in/c'']"

definition empty_href_page :: browser where
  "empty_href_page =
     a_browser [(a_card ''5 mutual connections'' [])\<lparr>profile_anchor := Some (an_anchor None)\<rparr>,
                a_card ''5 mutual connections'' [],
                a_card ''5 mutual connections'' ''/in/c'']"

section \<open>What the collector's output is compared with\<close>

text \<open>
  The profile URL of a card: the \<^verbatim>\<open>href\<close> of its profile anchor, when the card's handle
  is valid, the anchor is there and the \<^verbatim>\<open>href\<close> is a non-empty string.
\<close>

definition card_url :: "card \<Rightarrow> str option" where
  "card_url c =
     (if stale c then None
      else case profile_anchor c of
             None \<Rightarrow> None
           | Some anchor \<Rightarrow>
               (case el_href anchor of
                  None \<Rightarrow> None
                | Some h \<Rightarrow> if h = [] then None else Some h))"

text \<open>A card is actioned when inline connecting is tried and the gate returns.\<close>

definition actioned :: "browser \<Rightarrow> bool \<Rightarrow> card \<Rightarrow> bool" where
  "actioned b try_inline c =
     (try_inline \<and> (case fst (send_connect_inline c b) of Inr v \<Rightarrow> True | Inl e \<Rightarrow> False))"

text \<open>
  The profile URLs of the cards that are not actioned, in document order, duplicates
  included.
\<close>

definition pending_urls :: "browser \<Rightarrow> bool \<Rightarrow> card list \<Rightarrow> str list" where
  "pending_urls b try_inline cs =
     concat (map (\<lambda>c. if actioned b try_inline c then []
                       else case card_url c of None \<Rightarrow> [] | Some h \<Rightarrow> [h]) cs)"

text \<open>
  First-seen order, as the specification words it: an entry of a sequence is kept exactly
  when it does not occur at an earlier position.
\<close>

definition first_seen_order :: "'a list \<Rightarrow> 'a list" where
  "first_seen_order xs =
     map (\<lambda>i. xs ! i) (filter (\<lambda>i. xs ! i \<notin> set (take i xs)) [0..<length xs])"

text \<open>The update of \<^verbatim>\<open>profile_links\<close> in the loop body, for a truthy \<^verbatim>\<open>href\<close>.\<close>

definition add_new :: "'a \<Rightarrow> 'a list \<Rightarrow> 'a list" where
  "add_new x acc = (if x \<in> set acc then acc else acc @ [x])"

section \<open>The parser on digit runs\<close>

lemma decimal_value_ascii:
  "c < 1632 \<Longrightarrow> decimal_value c = (if 48 \<le> c \<and> c < 58 then Some (c - 48) else None)"
  by (simp add: decimal_value_def unicode_decimal_zeros_def)

lemma is_digit_ascii: "c < 1632 \<Longrightarrow> is_digit c = (48 \<le> c \<and> c < 58)"
  by (simp add: is_digit_def decimal_value_ascii)














text \<open>
  Every string has no digit, or exactly one maximal run of digits, or a first run that is
  followed by a character that is no digit and, later, by another digit.
\<close>

lemma digit_run_cases:
  "(\<forall>c \<in> set s. \<not> is_digit c) \<or>
   (\<exists>a d b. s = a @ d @ b \<and> (\<forall>c \<in> set a. \<not> is_digit c) \<and> d \<noteq> [] \<and> (\<forall>c \<in> set d. is_digit c) \<and> (\<forall>c \<in> set b. \<not> is_digit c)) \<or>
   (\<exists>a c1 m c2 n c3 b. s = a @ c1 # m @ c2 # n @ c3 # b \<and> (\<forall>c \<in> set a. \<not> is_digit c) \<and> is_digit c1 \<and> \<not> is_digit c2 \<and> is_digit c3)"
proof (cases "\<forall>c \<in> set s. \<not> is_digit c")
  case True then show ?thesis by simp
next
  case False
  define a where "a = takeWhile (\<lambda>c. \<not> is_digit c) s"
  define r where "r = dropWhile (\<lambda>c. \<not> is_digit c) s"
  have s: "s = a @ r" by (simp add: a_def r_def)
  have a: "\<forall>c \<in> set a. \<not> is_digit c" unfolding a_def by (auto dest: set_takeWhileD)
  have "r \<noteq> []" using False by (auto simp: r_def dropWhile_eq_Nil_conv)
  then obtain c1 r1 where r: "r = c1 # r1" by (cases r) auto
  have c1: "is_digit c1" using hd_dropWhile [of "\<lambda>c. \<not> is_digit c" s] r False by (auto simp: r_def)
  define m where "m = takeWhile is_digit r1"
  define t where "t = dropWhile is_digit r1"
  have r1: "r1 = m @ t" by (simp add: m_def t_def)
  have m: "\<forall>c \<in> set m. is_digit c" unfolding m_def by (auto dest: set_takeWhileD)
  show ?thesis
  proof (cases "\<forall>c \<in> set t. \<not> is_digit c")
    case True
    have "s = a @ (c1 # m) @ t" by (simp add: s r r1)
    with a c1 m True show ?thesis by (intro disjI2 disjI1 exI [of _ a] exI [of _ "c1 # m"] exI [of _ t]) simp
  next
    case F2: False
    then have "t \<noteq> []" by auto
    then obtain c2 t1 where t: "t = c2 # t1" by (cases t) auto
    have "dropWhile is_digit r1 \<noteq> []" using \<open>t \<noteq> []\<close> unfolding t_def .
    from hd_dropWhile [OF this] have c2: "\<not> is_digit c2" using t by (simp add: t_def [symmetric])
    from F2 t c2 obtain c3 where "c3 \<in> set t1" "is_digit c3" by auto
    then obtain n b where t1: "t1 = n @ c3 # b" by (auto dest: split_list)
    have "s = a @ c1 # m @ c2 # n @ c3 # b" by (simp add: s r r1 t t1)
    with a c1 c2 \<open>is_digit c3\<close> show ?thesis by blast
  qed
qed




lemma values_of_digits:
  "\<forall>c \<in> set d. is_digit c \<Longrightarrow> \<exists>ds. map decimal_value d = map Some ds"
proof (induction d)
  case Nil
  then show ?case by simp
next
  case (Cons c d)
  then obtain ds where ds: "map decimal_value d = map Some ds" by auto
  from Cons.prems obtain v where "decimal_value c = Some v" by (auto simp: is_digit_def)
  with ds have "map decimal_value (c # d) = map Some (v # ds)" by simp
  then show ?case by blast
qed



lemma decimal_value_arabic_three: "decimal_value 1635 = Some 3"
  by (simp add: decimal_value_def unicode_decimal_zeros_def)

lemma is_digit_arabic_three: "is_digit 1635"
  by (simp add: is_digit_def decimal_value_arabic_three)




section \<open>Running the definitions\<close>

lemmas io_defs = bind_def try_except_def perform_def raise_def ret_def raise_or_ret_def
  lookup_errors_def click_errors_def inline_causes_def click_outcome_def getattr_text_def
  BrowserClient_find_element_def WebDriver_find_element_def

lemmas run_defs = io_defs dunder_send_connect_inline_def send_connect_inline_try_def
  send_connect_inline_def extract_link_def loop_body_def get_search_results_def
  BrowserClient_get_def BrowserClient_find_elements_def WebElement_find_element_def
  get_mutual_connection_count_from_card_insights_text_def py_int_def int_max_str_digits_def
  is_digit_ascii decimal_value_ascii MIN_MUTUAL_CONNECTIONS_TO_SEND_CONNECT_def

lemmas example_defs = py_def a_card_def a_button_def an_insight_def an_anchor_def a_browser_def
  popup_missing_card_def disabled_card_def bare_card_def aborting_page_def
  duplicate_page_def empty_href_page_def

section \<open>The actuator and the gate\<close>

lemma actuator_events:
  "set (snd (dunder_send_connect_inline c b)) \<subseteq>
     {Find_connect, Is_enabled_connect, Click_connect, Find_popup, Click_popup}"
  unfolding dunder_send_connect_inline_def io_defs
  by (auto split: sum.splits option.splits if_splits prod.splits)

lemma gate_low:
  assumes "WebElement_find_element c Insights_selector = Inr ins"
    and "get_mutual_connection_count_from_card_insights_text (el_text ins) = Inr n"
    and "n < 10"
  shows "send_connect_inline c b = (Inl (InlineConnectException LowMutualConnectionsError), [Find_insights, Call_parser (el_text ins)])"
  using assms unfolding send_connect_inline_def send_connect_inline_try_def io_defs MIN_MUTUAL_CONNECTIONS_TO_SEND_CONNECT_def
  by simp

lemma gate_high:
  assumes "WebElement_find_element c Insights_selector = Inr ins"
    and "get_mutual_connection_count_from_card_insights_text (el_text ins) = Inr n"
    and "10 \<le> n"
  shows "snd (send_connect_inline c b) = [Find_insights, Call_parser (el_text ins), Call_actuator] @ snd (dunder_send_connect_inline c b)"
  using assms unfolding send_connect_inline_def send_connect_inline_try_def bind_def try_except_def perform_def raise_def  inline_causes_def lookup_errors_def MIN_MUTUAL_CONNECTIONS_TO_SEND_CONNECT_def
  by (simp split: prod.splits sum.splits)

text \<open>
  Each of the five causes that the suite of the gate's \<^verbatim>\<open>try\<close> raises leaves the gate
  as \<open>InlineConnectException\<close> carrying that cause; a value is returned unchanged.
\<close>

lemma gate_wraps_causes:
  "(fst (send_connect_inline_try c b) = Inl e \<and> e \<in> set inline_causes \<longrightarrow>
      fst (send_connect_inline c b) = Inl (InlineConnectException e)) \<and>
   (fst (send_connect_inline_try c b) = Inr v \<longrightarrow> fst (send_connect_inline c b) = Inr v)"
  unfolding send_connect_inline_def try_except_def raise_def
  by (auto split: prod.splits sum.splits)

text \<open>
  C8. A card whose connect control is present but disabled makes the actuator fail with
  \<open>ConnectButtonError\<close> after the lookup and the enabledness check alone: the control
  is not clicked and the popup control is never looked up.
\<close>

theorem disabled_connect_button:
  assumes "\<not> stale c" and "connect_button c = Some btn" and "\<not> el_is_enabled btn"
  shows "dunder_send_connect_inline c b =
           (Inl ConnectButtonError, [Find_connect, Is_enabled_connect]) \<and>
         Click_connect \<notin> set (snd (dunder_send_connect_inline c b)) \<and>
         Find_popup \<notin> set (snd (dunder_send_connect_inline c b))"
  using assms unfolding dunder_send_connect_inline_def io_defs WebElement_find_element_def
  by simp

theorem disabled_connect_button_witness:
  "\<not> stale disabled_card \<and>
   connect_button disabled_card = Some (a_button\<lparr>el_is_enabled := False\<rparr>) \<and>
   dunder_send_connect_inline disabled_card (a_browser []) =
     (Inl ConnectButtonError, [Find_connect, Is_enabled_connect])"
  using disabled_connect_button
    [of disabled_card "a_button\<lparr>el_is_enabled := False\<rparr>" "a_browser []"]
  by (simp add: example_defs)

text \<open>
  C5. For a card whose insight text parses to \<open>n\<close>, the gate calls the actuator exactly
  when \<open>n \<ge> 10\<close>: below the threshold (so at \<open>n = 9\<close>) it fails with the cause
  \<open>LowMutualConnectionsError\<close> after the lookup and the parse alone; from the threshold
  on (so at \<open>n = 10\<close>) the actuator's events follow the call.
\<close>

theorem gate_threshold:
  assumes "WebElement_find_element c Insights_selector = Inr ins"
    and "get_mutual_connection_count_from_card_insights_text (el_text ins) = Inr n"
  shows "MIN_MUTUAL_CONNECTIONS_TO_SEND_CONNECT = 10 \<and>
         (Call_actuator \<in> set (snd (send_connect_inline c b)) \<longleftrightarrow> 10 \<le> n) \<and>
         (n < 10 \<longrightarrow>
            send_connect_inline c b =
              (Inl (InlineConnectException LowMutualConnectionsError),
               [Find_insights, Call_parser (el_text ins)])) \<and>
         (10 \<le> n \<longrightarrow>
            snd (send_connect_inline c b) =
              [Find_insights, Call_parser (el_text ins), Call_actuator]
                @ snd (dunder_send_connect_inline c b))"
proof (cases "n < 10")
  case True
  from gate_low [OF assms True] show ?thesis
    using True by (simp add: MIN_MUTUAL_CONNECTIONS_TO_SEND_CONNECT_def)
next
  case False
  then have n: "10 \<le> n" by simp
  from gate_high [OF assms n] show ?thesis
    using n by (simp add: MIN_MUTUAL_CONNECTIONS_TO_SEND_CONNECT_def)
qed

theorem gate_threshold_witness:
  "send_connect_inline (a_card ''9 mutual'' ''/in/x'') (a_browser []) =
     (Inl (InlineConnectException LowMutualConnectionsError),
      [Find_insights, Call_parser (py ''9 mutual'')]) \<and>
   Call_actuator \<in> set (snd (send_connect_inline (a_card ''10 mutual'' ''/in/x'') (a_browser [])))"
  using gate_threshold
    [of "a_card ''9 mutual'' ''/in/x''" "an_insight ''9 mutual''" 9 "a_browser []"]
    gate_threshold
    [of "a_card ''10 mutual'' ''/in/x''" "an_insight ''10 mutual''" 10 "a_browser []"]
  by (simp add: example_defs WebElement_find_element_def
      get_mutual_connection_count_from_card_insights_text_def py_int_def
      int_max_str_digits_def is_digit_ascii decimal_value_ascii)

text \<open>
  C7. A card without an insights region makes the gate fail with the cause
  \<open>InsightsNotFoundException\<close> after the insights lookup alone, whatever its connect
  button is: the parser and the actuator are not called and nothing is clicked. For every
  card the gate's events are the insights lookup, then the parse, then the actuator, each
  reached only when the check before it passed.
\<close>

theorem no_insights_short_circuit:
  "(insights_div c = None \<longrightarrow>
      send_connect_inline c b =
        (Inl (InlineConnectException InsightsNotFoundException), [Find_insights])) \<and>
   (case WebElement_find_element c Insights_selector of
      Inl e \<Rightarrow> snd (send_connect_inline c b) = [Find_insights]
    | Inr ins \<Rightarrow>
        (case get_mutual_connection_count_from_card_insights_text (el_text ins) of
           Inl e \<Rightarrow> snd (send_connect_inline c b) = [Find_insights, Call_parser (el_text ins)]
         | Inr n \<Rightarrow>
             if n < 10
             then snd (send_connect_inline c b) = [Find_insights, Call_parser (el_text ins)]
             else snd (send_connect_inline c b) =
                    [Find_insights, Call_parser (el_text ins), Call_actuator]
                      @ snd (dunder_send_connect_inline c b)))"
proof (intro conjI impI)
  assume "insights_div c = None"
  then show "send_connect_inline c b =
      (Inl (InlineConnectException InsightsNotFoundException), [Find_insights])"
    unfolding send_connect_inline_def send_connect_inline_try_def io_defs
      WebElement_find_element_def
    by simp
next
  show "case WebElement_find_element c Insights_selector of
      Inl e \<Rightarrow> snd (send_connect_inline c b) = [Find_insights]
    | Inr ins \<Rightarrow>
        (case get_mutual_connection_count_from_card_insights_text (el_text ins) of
           Inl e \<Rightarrow> snd (send_connect_inline c b) = [Find_insights, Call_parser (el_text ins)]
         | Inr n \<Rightarrow>
             if n < 10
             then snd (send_connect_inline c b) = [Find_insights, Call_parser (el_text ins)]
             else snd (send_connect_inline c b) =
                    [Find_insights, Call_parser (el_text ins), Call_actuator]
                      @ snd (dunder_send_connect_inline c b))"
  proof (cases "WebElement_find_element c Insights_selector")
    case (Inl e)
    then show ?thesis
      unfolding send_connect_inline_def send_connect_inline_try_def io_defs
      by (simp split: if_splits)
  next
    case (Inr ins)
    show ?thesis
    proof (cases "get_mutual_connection_count_from_card_insights_text (el_text ins)")
      case (Inl e)
      with Inr show ?thesis
        unfolding send_connect_inline_def send_connect_inline_try_def io_defs
        by (simp split: if_splits)
    next
      case n: (Inr n)
      show ?thesis
      proof (cases "n < 10")
        case True
        from gate_low [OF Inr n True] show ?thesis using Inr n True by simp
      next
        case False
        then have "10 \<le> n" by simp
        from gate_high [OF Inr n this] show ?thesis using Inr n False by simp
      qed
    qed
  qed
qed

theorem no_insights_short_circuit_witness:
  "insights_div bare_card = None \<and>
   send_connect_inline bare_card (a_browser []) =
     (Inl (InlineConnectException InsightsNotFoundException), [Find_insights]) \<and>
   insights_div ((a_card ''12 mutual'' ''/in/x'')\<lparr>insights_div := None\<rparr>) = None \<and>
   send_connect_inline ((a_card ''12 mutual'' ''/in/x'')\<lparr>insights_div := None\<rparr>) (a_browser []) =
     (Inl (InlineConnectException InsightsNotFoundException), [Find_insights])"
  using no_insights_short_circuit [of bare_card "a_browser []"]
    no_insights_short_circuit
      [of "(a_card ''12 mutual'' ''/in/x'')\<lparr>insights_div := None\<rparr>" "a_browser []"]
  by (simp add: example_defs)

text \<open>
  C2. On a card whose connect control was located, enabled and clicked, and for which the
  page-wide lookup of the confirmation control finds nothing, the actuator ends with
  \<open>AttributeError\<close>: \<open>BrowserClient_find_element\<close> hands back \<open>None\<close>, reading its
  text fails, and the handler that would raise \<open>PopupButtonError\<close> does not list that
  class.
\<close>

theorem actuator_missing_popup:
  "dunder_send_connect_inline popup_missing_card (a_browser []) =
     (Inl AttributeError, [Find_connect, Is_enabled_connect, Click_connect, Find_popup])"
  by (simp add: run_defs example_defs)

text \<open>
  C6. On the same card the gate ends with \<open>AttributeError\<close>, which is none of the five
  causes it wraps, so its caller does not see \<open>InlineConnectException\<close>.
\<close>

theorem gate_missing_popup:
  "send_connect_inline popup_missing_card (a_browser []) =
     (Inl AttributeError,
      [Find_insights, Call_parser (py ''15 mutual connections''), Call_actuator,
       Find_connect, Is_enabled_connect, Click_connect, Find_popup])"
  by (simp add: run_defs example_defs)

section \<open>Lookups that find nothing\<close>

text \<open>
  C3, as the claim states it, fails for the card scope: a card-scoped lookup that finds
  nothing raises \<open>NoSuchElementException\<close>, and the actuator turns it into a raised
  \<open>ConnectButtonError\<close>.
\<close>

theorem card_lookup_raises_not_found:
  "WebElement_find_element bare_card Connect_selector = Inl NoSuchElementException \<and>
   dunder_send_connect_inline bare_card (a_browser []) = (Inl ConnectButtonError, [Find_connect])"
  by (simp add: run_defs example_defs)

text \<open>
  C3, amended. A whole-page lookup through \<open>BrowserClient_find_element\<close> never raises:
  not found, like any other failure of the driver, is the value \<open>None\<close>. A card-scoped
  lookup that finds nothing raises \<open>NoSuchElementException\<close>, and each of the three
  card-scoped lookups of the core handles it where it is issued: the actuator raises
  \<open>ConnectButtonError\<close>, the gate raises \<open>InlineConnectException\<close> with the cause
  \<open>InsightsNotFoundException\<close>, and the link extraction returns the URL sequence
  unchanged.
\<close>

theorem lookup_not_found_handling:
  "BrowserClient_find_element (WebDriver_find_element None) = None \<and>
   BrowserClient_find_element (Inl e) = None \<and>
   (\<not> stale c \<and> connect_button c = None \<longrightarrow>
      WebElement_find_element c Connect_selector = Inl NoSuchElementException \<and>
      dunder_send_connect_inline c b = (Inl ConnectButtonError, [Find_connect])) \<and>
   (\<not> stale c \<and> insights_div c = None \<longrightarrow>
      WebElement_find_element c Insights_selector = Inl NoSuchElementException \<and>
      send_connect_inline c b =
        (Inl (InlineConnectException InsightsNotFoundException), [Find_insights])) \<and>
   (\<not> stale c \<and> profile_anchor c = None \<longrightarrow>
      WebElement_find_element c Link_selector = Inl NoSuchElementException \<and>
      extract_link c links = (Inr links, [Find_link]))"
  unfolding dunder_send_connect_inline_def send_connect_inline_def
    send_connect_inline_try_def extract_link_def io_defs WebElement_find_element_def
  by simp

theorem lookup_not_found_handling_witness:
  "\<not> stale bare_card \<and> connect_button bare_card = None \<and> insights_div bare_card = None \<and>
   profile_anchor bare_card = None \<and>
   dunder_send_connect_inline bare_card (a_browser []) = (Inl ConnectButtonError, [Find_connect]) \<and>
   send_connect_inline bare_card (a_browser []) =
     (Inl (InlineConnectException InsightsNotFoundException), [Find_insights]) \<and>
   extract_link bare_card [py ''/in/a''] = (Inr [py ''/in/a''], [Find_link])"
  using lookup_not_found_handling [of NoSuchElementException bare_card "a_browser []" "[py ''/in/a'']"]
  by (simp add: example_defs)

section \<open>The collector\<close>

lemma extract_link_fst:
  "fst (extract_link c links) = Inr links' \<Longrightarrow>
     links' = fold add_new (case card_url c of None \<Rightarrow> [] | Some h \<Rightarrow> [h]) links"
  unfolding extract_link_def io_defs WebElement_find_element_def card_url_def add_new_def
  by (auto split: sum.splits option.splits if_splits prod.splits selector.splits)

lemma loop_body_fst:
  "fst (loop_body b ti c links) =
     (if ti then
        (case fst (send_connect_inline c b) of
           Inr v \<Rightarrow> Inr links
         | Inl e \<Rightarrow> (case e of InlineConnectException cause \<Rightarrow> fst (extract_link c links) | _ \<Rightarrow> Inl e))
      else fst (extract_link c links))"
  unfolding loop_body_def
  by (simp split: prod.splits sum.splits exn.splits)

lemma loop_body_shift:
  assumes "fst (loop_body b ti c links) = Inr links'"
  shows "links' = fold add_new (pending_urls b ti [c]) links"
proof (cases "actioned b ti c")
  case True
  then have "links' = links"
    using assms by (auto simp: actioned_def loop_body_fst split: sum.splits)
  with True show ?thesis by (simp add: pending_urls_def)
next
  case False
  then have "fst (loop_body b ti c links) = fst (extract_link c links)"
    using assms by (auto simp: actioned_def loop_body_fst split: if_splits sum.splits exn.splits)
  with assms have "fst (extract_link c links) = Inr links'" by simp
  from extract_link_fst [OF this] False show ?thesis by (simp add: pending_urls_def)
qed

lemma pending_urls_Cons:
  "pending_urls b ti (c # cs) = pending_urls b ti [c] @ pending_urls b ti cs"
  by (simp add: pending_urls_def)

lemma for_cards_fold:
  "fst (for_cards b ti cs links) = Inr urls \<Longrightarrow>
     urls = fold add_new (pending_urls b ti cs) links"
proof (induction cs arbitrary: links)
  case Nil
  then show ?case by (simp add: ret_def pending_urls_def)
next
  case (Cons c cs)
  from Cons.prems obtain links' where
    step: "fst (loop_body b ti c links) = Inr links'" and
    rest: "fst (for_cards b ti cs links') = Inr urls"
    by (auto simp: bind_def split: prod.splits sum.splits)
  from loop_body_shift [OF step] Cons.IH [OF rest] show ?case
    by (simp add: pending_urls_Cons [of b ti c cs])
qed

lemma pending_urls_nonempty: "h \<in> set (pending_urls b ti cs) \<Longrightarrow> h \<noteq> []"
  by (auto simp: pending_urls_def card_url_def split: if_splits option.splits)

lemma set_fold_add_new: "set (fold add_new xs acc) = set acc \<union> set xs"
  by (induction xs arbitrary: acc) (auto simp: add_new_def)

lemma distinct_fold_add_new: "distinct acc \<Longrightarrow> distinct (fold add_new xs acc)"
  by (induction xs arbitrary: acc) (auto simp: add_new_def)

lemma first_seen_order_snoc:
  "first_seen_order (xs @ [x]) = first_seen_order xs @ (if x \<in> set xs then [] else [x])"
proof -
  have f: "filter (\<lambda>i. (xs @ [x]) ! i \<notin> set (take i (xs @ [x]))) [0..<length xs] =
           filter (\<lambda>i. xs ! i \<notin> set (take i xs)) [0..<length xs]"
    by (rule filter_cong) (auto simp: nth_append)
  have m: "map (\<lambda>i. (xs @ [x]) ! i) (filter (\<lambda>i. xs ! i \<notin> set (take i xs)) [0..<length xs]) =
           map (\<lambda>i. xs ! i) (filter (\<lambda>i. xs ! i \<notin> set (take i xs)) [0..<length xs])"
    by (rule map_cong) (auto simp: nth_append)
  have len: "[0..<length (xs @ [x])] = [0..<length xs] @ [length xs]" by simp
  show ?thesis
    unfolding first_seen_order_def len filter_append map_append f m by simp
qed

lemma fold_add_new_first_seen: "fold add_new xs [] = first_seen_order xs"
proof (induction xs rule: rev_induct)
  case Nil
  then show ?case by (simp add: first_seen_order_def)
next
  case (snoc x xs)
  have "set (first_seen_order xs) = set xs"
    using set_fold_add_new [of xs "[]"] snoc.IH by simp
  then show ?case using snoc.IH by (simp add: first_seen_order_snoc add_new_def)
qed

lemma get_search_results_fst:
  "fst (get_search_results b url ti) = Inr urls \<Longrightarrow>
     fst (for_cards b ti (BrowserClient_find_elements (driver_find_elements b)) []) = Inr urls"
  unfolding get_search_results_def BrowserClient_get_def bind_def perform_def ret_def
  by (auto simp: ret_def split: prod.splits sum.splits option.splits if_splits)

text \<open>
  C1. On a page whose second card has no confirmation control after the click, the scan
  ends with \<open>AttributeError\<close> at that card: the collector's first handler lists
  \<open>InlineConnectException\<close> only, the third card is never looked at and no URL
  sequence is returned.
\<close>

theorem collector_aborts_on_missing_popup:
  "get_search_results aborting_page (py ''search'') True =
     (Inl AttributeError,
      [Driver_get (py ''search''), Sleep 5, Find_cards,
       Find_insights, Call_parser (py ''5 mutual connections''), Find_link, Get_attribute_href,
       Find_insights, Call_parser (py ''15 mutual connections''), Call_actuator,
       Find_connect, Is_enabled_connect, Click_connect, Find_popup])"
  by (simp add: run_defs example_defs)

text \<open>
  C9. Whenever the collector returns a URL sequence, the sequence has no duplicates, and
  it is the sequence of the profile URLs (the non-empty \<^verbatim>\<open>href\<close>s of the profile anchors)
  of the cards that were not actioned, in document order, with every URL kept at its first
  occurrence only: a URL that several cards have appears once.
\<close>

theorem collector_unique:
  assumes "fst (get_search_results b url ti) = Inr urls"
  shows "distinct urls \<and>
         urls = first_seen_order
                  (pending_urls b ti (BrowserClient_find_elements (driver_find_elements b))) \<and>
         set urls = set (pending_urls b ti (BrowserClient_find_elements (driver_find_elements b)))"
proof -
  from for_cards_fold [OF get_search_results_fst [OF assms]]
  have u: "urls = fold add_new
             (pending_urls b ti (BrowserClient_find_elements (driver_find_elements b))) []"
    by simp
  then have "distinct urls" using distinct_fold_add_new [of "[]"] by simp
  moreover from u have
    "set urls = set (pending_urls b ti (BrowserClient_find_elements (driver_find_elements b)))"
    by (simp add: set_fold_add_new)
  ultimately show ?thesis using u by (simp add: fold_add_new_first_seen)
qed

lemma duplicate_page_run:
  "fst (get_search_results duplicate_page (py ''search'') True) = Inr [py ''/in/b'', py ''/in/c'']"
  by (simp add: run_defs example_defs)

lemma duplicate_page_pending:
  "pending_urls duplicate_page True (BrowserClient_find_elements (driver_find_elements duplicate_page)) =
     [py ''/in/b'', py ''/in/b'', py ''/in/c'']"
  by (simp add: pending_urls_def actioned_def card_url_def run_defs example_defs)

theorem collector_unique_witness:
  "fst (get_search_results duplicate_page (py ''search'') True) = Inr [py ''/in/b'', py ''/in/c''] \<and>
   distinct [py ''/in/b'', py ''/in/c''] \<and>
   [py ''/in/b'', py ''/in/c''] = first_seen_order [py ''/in/b'', py ''/in/b'', py ''/in/c'']"
proof -
  note w = collector_unique [OF duplicate_page_run, unfolded duplicate_page_pending]
  from w have d: "distinct [py ''/in/b'', py ''/in/c'']"
    by (rule conjunct1)
  from w have e: "[py ''/in/b'', py ''/in/c''] =
      first_seen_order [py ''/in/b'', py ''/in/b'', py ''/in/c'']"
    by (rule conjunct1 [OF conjunct2])
  show ?thesis
    by (rule conjI [OF duplicate_page_run conjI [OF d e]])
qed

text \<open>
  C10. Every entry of a URL sequence the collector returns is a non-empty string, and an
  anchor whose \<^verbatim>\<open>href\<close> is absent or empty leaves the sequence as it was.
\<close>

theorem collector_urls_nonempty:
  "(fst (get_search_results b url ti) = Inr urls \<longrightarrow> (\<forall>u \<in> set urls. u \<noteq> [])) \<and>
   (WebElement_find_element c Link_selector = Inr anchor \<and>
    (el_href anchor = None \<or> el_href anchor = Some []) \<longrightarrow>
      extract_link c links = (Inr links, [Find_link, Get_attribute_href]))"
proof (intro conjI impI)
  assume r: "fst (get_search_results b url ti) = Inr urls"
  from for_cards_fold [OF get_search_results_fst [OF r]]
  show "\<forall>u \<in> set urls. u \<noteq> []"
    by (auto simp: set_fold_add_new dest: pending_urls_nonempty)
next
  assume "WebElement_find_element c Link_selector = Inr anchor \<and>
    (el_href anchor = None \<or> el_href anchor = Some [])"
  then show "extract_link c links = (Inr links, [Find_link, Get_attribute_href])"
    unfolding extract_link_def io_defs by auto
qed

lemma empty_href_page_run:
  "fst (get_search_results empty_href_page (py ''search'') False) = Inr [py ''/in/c'']"
  by (simp add: run_defs example_defs)

theorem collector_urls_nonempty_witness:
  "fst (get_search_results empty_href_page (py ''search'') False) = Inr [py ''/in/c''] \<and>
   py ''/in/c'' \<noteq> [] \<and>
   extract_link (a_card ''5 mutual connections'' []) [py ''/in/a''] =
     (Inr [py ''/in/a''], [Find_link, Get_attribute_href])"
  using collector_urls_nonempty
    [of empty_href_page "py ''search''" False "[py ''/in/c'']"
        "a_card ''5 mutual connections'' []" "an_anchor (Some [])" "[py ''/in/a'']"]
    empty_href_page_run
  by (simp add: example_defs WebElement_find_element_def)

end
